theory Spec2Isabelle
  imports Main
begin

section \<open>Data model\<close>

text \<open>
  The backend of \<^verbatim>\<open>src/backend/main.py\<close> is a FastAPI application: a table of GET routes
  whose handlers return literal JSON values, one CORS middleware, one header-setting
  middleware and one handler for unhandled exceptions. The handlers, the route table, the
  middleware and the exception handler are translated from \<^verbatim>\<open>main.py\<close>; the
  calls into the framework (routing, the middleware stack, the CORS middleware with the
  options of lines 25-32, the routes the \<^verbatim>\<open>FastAPI(...)\<close> constructor adds)
  are modelled after the documented behaviour of FastAPI and Starlette.
\<close>

datatype json =
    JBool bool
  | JInt int
  | JStr string
  | JArr "json list"
  | JObj "(string \<times> json) list"

text \<open>
  A response body. The four last constructors stand for the documents that the framework
  generates itself (the OpenAPI schema as JSON, and three HTML pages).
\<close>

datatype content =
    Empty
  | JSON json
  | PlainText string
  | OpenAPISchema
  | SwaggerUIPage
  | SwaggerUIRedirectPage
  | ReDocPage

type_synonym header_list = "(string \<times> string) list"

text \<open>
  A request as the ASGI server hands it to the application. Strings are byte strings, with
  text in UTF-8. The path is the path of the URL after percent-decoding, so it can hold
  any character, a line feed too; the query string is what followed the question mark, as
  sent (percent-encoded). The names of the request headers are lower case. The server
  address is the one the socket is bound to, when the server gives it. The application is
  started without a root path (line 110).
\<close>

datatype scheme = Http | Https

record request =
  req_method :: string
  req_path :: string
  query_string :: string
  req_headers :: header_list
  req_body :: string
  scheme :: scheme
  server :: "(string \<times> nat) option"

record response =
  status_code :: nat
  headers :: header_list
  body :: content

text \<open>
  Exceptions: the HTTP exception of the framework (status, detail, headers), and any other
  exception, kept as its string description \<^verbatim>\<open>str(exc)\<close>.
\<close>

datatype exn =
    HTTPException nat string header_list
  | Exception string

subsection \<open>Strings\<close>

definition upper_case :: string where
  "upper_case = ''ABCDEFGHIJKLMNOPQRSTUVWXYZ''"

definition lower_case :: string where
  "lower_case = ''abcdefghijklmnopqrstuvwxyz''"

definition char_lower :: "char \<Rightarrow> char" where
  "char_lower c = (case map_of (zip upper_case lower_case) c of None \<Rightarrow> c | Some d \<Rightarrow> d)"

definition lower :: "string \<Rightarrow> string" where
  "lower s = map char_lower s"

fun join :: "string \<Rightarrow> string list \<Rightarrow> string" where
  "join sep [] = []"
| "join sep [x] = x"
| "join sep (x # y # zs) = x @ sep @ join sep (y # zs)"

definition rstrip :: "char \<Rightarrow> string \<Rightarrow> string" where
  "rstrip c s = rev (dropWhile (\<lambda>x. x = c) (rev s))"

definition startswith :: "string \<Rightarrow> string \<Rightarrow> bool" where
  "startswith s p = (take (length p) s = p)"

definition endswith :: "string \<Rightarrow> string \<Rightarrow> bool" where
  "endswith s p = (drop (length s - length p) s = p \<and> length p \<le> length s)"

definition LF :: char where
  "LF = CHR 0x0A"

text \<open>
  \<^verbatim>\<open>urllib.parse.quote(s, safe)\<close>: every byte but the letters, the digits, the four
  characters \<^verbatim>\<open>_.-~\<close> and those of \<open>safe\<close> becomes a percent sign and its two
  upper-case hexadecimal digits.
\<close>

definition hex_digits :: string where
  "hex_digits = ''0123456789ABCDEF''"

definition percent_encode :: "char \<Rightarrow> string" where
  "percent_encode c =
     [CHR ''%'', hex_digits ! (of_char c div 16), hex_digits ! (of_char c mod 16)]"

definition always_safe :: string where
  "always_safe = ''ABCDEFGHIJKLMNOPQRSTUVWXYZabcdefghijklmnopqrstuvwxyz0123456789_.-~''"

definition quote :: "string \<Rightarrow> string \<Rightarrow> string" where
  "quote s safe =
     concat (map (\<lambda>c. if c \<in> set (always_safe @ safe) then [c] else percent_encode c) s)"

text \<open>
  The value of a header is read as Latin-1: as text in UTF-8, a byte from 128 on becomes
  two bytes.
\<close>

definition latin1_to_utf8 :: "string \<Rightarrow> string" where
  "latin1_to_utf8 s =
     concat (map (\<lambda>c. if (of_char c :: nat) < 128 then [c]
                        else [char_of (192 + (of_char c :: nat) div 64),
                              char_of (128 + (of_char c :: nat) mod 64)]) s)"

text \<open>
  \<^verbatim>\<open>s.split(sep)\<close> for a separator of one character: the pieces between the
  separators, in order; \<open>acc\<close> is the current piece, reversed.
\<close>

fun split_from :: "char \<Rightarrow> string \<Rightarrow> string \<Rightarrow> string list" where
  "split_from sep acc [] = [rev acc]"
| "split_from sep acc (c # cs) =
     (if c = sep then rev acc # split_from sep [] cs else split_from sep (c # acc) cs)"

definition str_split :: "string \<Rightarrow> char \<Rightarrow> string list" where
  "str_split s sep = split_from sep [] s"

function decimal :: "nat \<Rightarrow> string" where
  "decimal n =
     (if n < 10 then [char_of (48 + n)] else decimal (n div 10) @ [char_of (48 + n mod 10)])"
  by pat_completeness auto
termination
  by (relation "measure id") auto

text \<open>\<^verbatim>\<open>str(exc)\<close>.\<close>

fun str_exn :: "exn \<Rightarrow> string" where
  "str_exn (HTTPException sc detail hs) = decimal sc @ '': '' @ detail"
| "str_exn (Exception text) = text"

subsection \<open>Response headers\<close>

text \<open>
  The header list of a response keeps lower-case names; setting a header replaces its
  first entry, removes any later one, and appends when there is none; a lookup ignores
  the case of the name.
\<close>

fun set_key :: "string \<Rightarrow> string \<Rightarrow> header_list \<Rightarrow> header_list" where
  "set_key k v [] = [(k, v)]"
| "set_key k v ((k', v') # hs) =
     (if k' = k then (k, v) # filter (\<lambda>h. fst h \<noteq> k) hs else (k', v') # set_key k v hs)"

definition set_header :: "string \<Rightarrow> string \<Rightarrow> header_list \<Rightarrow> header_list" where
  "set_header k v hs = set_key (lower k) v hs"

definition get_header :: "string \<Rightarrow> header_list \<Rightarrow> string option" where
  "get_header k hs = map_of hs (lower k)"

fun update_headers :: "header_list \<Rightarrow> header_list \<Rightarrow> header_list" where
  "update_headers [] hs = hs"
| "update_headers ((k, v) # kvs) hs = update_headers kvs (set_header k v hs)"

definition add_vary_header :: "string \<Rightarrow> header_list \<Rightarrow> header_list" where
  "add_vary_header vary hs =
     (case get_header ''vary'' hs of
        None \<Rightarrow> set_header ''vary'' vary hs
      | Some existing \<Rightarrow> set_header ''vary'' (join '', '' [existing, vary]) hs)"

text \<open>The headers a response starts with, given as a dictionary.\<close>

definition init_headers :: "header_list \<Rightarrow> header_list" where
  "init_headers hs = map (\<lambda>(k, v). (lower k, v)) hs"

definition JSONResponse :: "nat \<Rightarrow> header_list \<Rightarrow> json \<Rightarrow> response" where
  "JSONResponse sc hs j = \<lparr>status_code = sc, headers = init_headers hs, body = JSON j\<rparr>"

definition PlainTextResponse :: "nat \<Rightarrow> header_list \<Rightarrow> string \<Rightarrow> response" where
  "PlainTextResponse sc hs t = \<lparr>status_code = sc, headers = init_headers hs, body = PlainText t\<rparr>"

section \<open>Configuration (lines 9-15)\<close>

record config =
  ENVIRONMENT :: string
  JWT_SECRET :: string
  API_KEYS :: "string list"

type_synonym environ = "string \<rightharpoonup> string"

text \<open>
  \<^verbatim>\<open>load_dotenv()\<close> adds the variables of the \<^verbatim>\<open>.env\<close> file to the process
  environment, keeping a variable that is already set.
\<close>

definition load_dotenv :: "environ \<Rightarrow> environ \<Rightarrow> environ" where
  "load_dotenv dotenv env = dotenv ++ env"

definition getenv :: "environ \<Rightarrow> string \<Rightarrow> string \<Rightarrow> string" where
  "getenv env k d = (case env k of None \<Rightarrow> d | Some v \<Rightarrow> v)"

definition load_config :: "environ \<Rightarrow> config" where
  "load_config env =
     \<lparr>ENVIRONMENT = getenv env ''ENVIRONMENT'' ''development'',
      JWT_SECRET = getenv env ''JWT_SECRET'' ''dev-secret-key-for-gamepathai'',
      API_KEYS = str_split (getenv env ''API_KEYS'' ''dev-api-key'') (CHR '','')\<rparr>"

text \<open>
  The process: its environment and the module globals, set once when the module is
  loaded. \<open>setenv\<close> is a later change of the environment.
\<close>

record process =
  os_environ :: environ
  settings :: config

definition startup :: "environ \<Rightarrow> environ \<Rightarrow> process" where
  "startup dotenv env =
     (let env' = load_dotenv dotenv env in \<lparr>os_environ = env', settings = load_config env'\<rparr>)"


section \<open>Route handlers (lines 35-77, 100-105)\<close>

definition health :: "config \<Rightarrow> json" where
  "health cfg =
     JObj [(''status'', JStr ''healthy''), (''version'', JStr ''1.0.0''),
           (''environment'', JStr (ENVIRONMENT cfg))]"

definition api_health :: "config \<Rightarrow> json" where
  "api_health cfg =
     JObj [(''status'', JStr ''healthy''), (''version'', JStr ''1.0.0''),
           (''environment'', JStr (ENVIRONMENT cfg))]"

definition games :: json where
  "games =
     JArr [JObj [(''id'', JStr ''valorant''), (''name'', JStr ''Valorant''),
                 (''isOptimized'', JBool False)],
           JObj [(''id'', JStr ''csgo''), (''name'', JStr ''Counter-Strike 2''),
                 (''isOptimized'', JBool True)],
           JObj [(''id'', JStr ''fortnite''), (''name'', JStr ''Fortnite''),
                 (''isOptimized'', JBool False)]]"

definition ml_game_detection :: json where
  "ml_game_detection =
     JArr [JObj [(''id'', JStr ''valorant''), (''name'', JStr ''Valorant''),
                 (''isDetected'', JBool True)],
           JObj [(''id'', JStr ''csgo''), (''name'', JStr ''Counter-Strike 2''),
                 (''isDetected'', JBool True)]]"

definition metrics_ping :: json where
  "metrics_ping =
     JObj [(''value'', JInt 35), (''unit'', JStr ''ms''),
           (''timestamp'', JStr ''2025-05-05T12:00:00Z'')]"

definition metrics_jitter :: json where
  "metrics_jitter =
     JObj [(''value'', JInt 5), (''unit'', JStr ''ms''),
           (''timestamp'', JStr ''2025-05-05T12:00:00Z'')]"

definition metrics_system :: json where
  "metrics_system =
     JObj [(''cpu'', JInt 45), (''memory'', JInt 60), (''gpu'', JInt 50),
           (''timestamp'', JStr ''2025-05-05T12:00:00Z'')]"

definition catch_all :: "string \<Rightarrow> json" where
  "catch_all rest_of_path = JObj [(''message'', JStr ''Esta rota deve ser servida pelo frontend'')]"

section \<open>Routing\<close>

text \<open>
  A route: its methods, its path pattern and its endpoint. A pattern is a literal path,
  or a prefix followed by a parameter of the \<^verbatim>\<open>path\<close> converter, which takes the rest
  of the path, slashes included. An endpoint gets the request and the path parameters, and
  returns a response or raises.
\<close>

datatype pattern =
    Static string
  | PathTail string string

type_synonym endpoint = "request \<Rightarrow> (string \<times> string) list \<Rightarrow> exn + response"

record route =
  methods :: "string list"
  pattern :: pattern
  endpoint :: endpoint

text \<open>
  The framework compiles a path to a regular expression between \<^verbatim>\<open>^\<close> and
  \<^verbatim>\<open>$\<close> and applies \<^verbatim>\<open>re.match\<close>: the literal text escaped, a
  \<^verbatim>\<open>path\<close> parameter as the group \<^verbatim>\<open>.*\<close>. There, \<^verbatim>\<open>$\<close> matches at
  the end of the string and also before a line feed that ends it, and \<^verbatim>\<open>.\<close> matches
  every character but the line feed. So a literal path matches itself, and itself
  followed by one line feed; the parameter takes the rest of the path when no line feed
  is in it but possibly as its last character, which is left out of the value.
\<close>

fun pattern_match :: "pattern \<Rightarrow> string \<Rightarrow> (string \<times> string) list option" where
  "pattern_match (Static p) s = (if s = p \<or> s = p @ [LF] then Some [] else None)"
| "pattern_match (PathTail p name) s =
     (let rest = drop (length p) s
      in if startswith s p \<and> LF \<notin> set (butlast rest)
         then Some [(name, if endswith rest [LF] then butlast rest else rest)]
         else None)"

datatype match = NoMatch | Partial | Full

definition matches :: "route \<Rightarrow> string \<Rightarrow> string \<Rightarrow> match" where
  "matches r m p =
     (case pattern_match (pattern r) p of
        None \<Rightarrow> NoMatch
      | Some ps \<Rightarrow> if m \<in> set (methods r) then Full else Partial)"

definition path_params :: "route \<Rightarrow> string \<Rightarrow> (string \<times> string) list" where
  "path_params r p = (case pattern_match (pattern r) p of None \<Rightarrow> [] | Some ps \<Rightarrow> ps)"

text \<open>
  A route handles the request it matched: a method it does not serve raises the HTTP
  exception 405 with the \<^verbatim>\<open>Allow\<close> header.
\<close>

definition handle :: "route \<Rightarrow> request \<Rightarrow> exn + response" where
  "handle r req =
     (if req_method req \<in> set (methods r)
      then endpoint r req (path_params r (req_path req))
      else Inl (HTTPException 405 ''Method Not Allowed'' [(''Allow'', join '', '' (methods r))]))"

definition url_safe :: string where
  "url_safe = '':/%#?=@[]!$&'' @ [CHR 0x27] @ ''()*+,;''"

definition RedirectResponse :: "string \<Rightarrow> response" where
  "RedirectResponse url =
     \<lparr>status_code = 307, headers = set_header ''location'' (quote url url_safe) [], body = Empty\<rparr>"

text \<open>
  The URL of a request, with the path given: the scheme and the \<^verbatim>\<open>Host\<close> header
  when there is one, else the scheme and the address of the server (the port left out when
  it is the default one of the scheme), else the path alone; then the query string.
\<close>

definition scheme_name :: "scheme \<Rightarrow> string" where
  "scheme_name sch = (case sch of Http \<Rightarrow> ''http'' | Https \<Rightarrow> ''https'')"

definition default_port :: "scheme \<Rightarrow> nat" where
  "default_port sch = (case sch of Http \<Rightarrow> 80 | Https \<Rightarrow> 443)"

definition URL :: "request \<Rightarrow> string \<Rightarrow> string" where
  "URL req path =
     (let url =
        (case map_of (req_headers req) ''host'' of
           Some host_header \<Rightarrow>
             scheme_name (scheme req) @ ''://'' @ latin1_to_utf8 host_header @ path
         | None \<Rightarrow>
            (case server req of
               None \<Rightarrow> path
             | Some (host, port) \<Rightarrow>
                 if port = default_port (scheme req)
                 then scheme_name (scheme req) @ ''://'' @ host @ path
                 else scheme_name (scheme req) @ ''://'' @ host @ '':'' @ decimal port @ path))
      in if query_string req = [] then url else url @ ''?'' @ query_string req)"

text \<open>
  The router: the first route that matches path and method handles the request; failing
  that, the first route that matches the path alone (which raises 405); failing that, a
  redirect to the URL of the request with the trailing slash of its path added or removed,
  when some route matches that path; failing that, the HTTP exception 404.
\<close>

definition redirect_path :: "string \<Rightarrow> string" where
  "redirect_path p = (if endswith p ''/'' then rstrip (CHR ''/'') p else p @ ''/'')"

definition router :: "route list \<Rightarrow> request \<Rightarrow> exn + response" where
  "router rs req =
     (case find (\<lambda>r. matches r (req_method req) (req_path req) = Full) rs of
        Some r \<Rightarrow> handle r req
      | None \<Rightarrow>
         (case find (\<lambda>r. matches r (req_method req) (req_path req) = Partial) rs of
            Some r \<Rightarrow> handle r req
          | None \<Rightarrow>
             if req_path req \<noteq> ''/'' \<and>
                list_ex (\<lambda>r. matches r (req_method req) (redirect_path (req_path req)) \<noteq> NoMatch) rs
             then Inr (RedirectResponse (URL req (redirect_path (req_path req))))
             else Inl (HTTPException 404 ''Not Found'' [])))"

text \<open>
  A handler registered with \<^verbatim>\<open>@app.get\<close> returns a value, which the framework sends
  as a JSON response of status 200.
\<close>

definition json_endpoint :: "json \<Rightarrow> endpoint" where
  "json_endpoint j = (\<lambda>req ps. Inr (JSONResponse 200 [] j))"

definition api_route :: "string list \<Rightarrow> pattern \<Rightarrow> endpoint \<Rightarrow> route" where
  "api_route ms pat e = \<lparr>methods = ms, pattern = pat, endpoint = e\<rparr>"

text \<open>
  The endpoint of \<open>catch_all\<close>: its argument is the path parameter
  \<^verbatim>\<open>rest_of_path\<close>. The route \<^verbatim>\<open>/\<close> has no path parameter (the framework
  would take the argument from the query string there); it is registered after the
  route with the parameter, which matches \<^verbatim>\<open>/\<close> too, so it handles no request,
  and it gets the default \<^verbatim>\<open>""\<close> here.
\<close>

definition catch_all_endpoint :: endpoint where
  "catch_all_endpoint =
     (\<lambda>req ps. Inr (JSONResponse 200 []
        (catch_all (case map_of ps ''rest_of_path'' of None \<Rightarrow> [] | Some r \<Rightarrow> r))))"

text \<open>
  The routes of lines 35-77 and 100-105, in the order of their registration: of two
  decorators on one function, the lower one is applied first.
\<close>

definition declared_routes :: "config \<Rightarrow> route list" where
  "declared_routes cfg =
     [api_route [''GET''] (Static ''/health'') (json_endpoint (health cfg)),
      api_route [''GET''] (Static ''/api/health'') (json_endpoint (api_health cfg)),
      api_route [''GET''] (Static ''/games'') (json_endpoint games),
      api_route [''GET''] (Static ''/api/games'') (json_endpoint games),
      api_route [''GET''] (Static ''/ml/game-detection'') (json_endpoint ml_game_detection),
      api_route [''GET''] (Static ''/api/metrics/ping'') (json_endpoint metrics_ping),
      api_route [''GET''] (Static ''/api/metrics/jitter'') (json_endpoint metrics_jitter),
      api_route [''GET''] (Static ''/api/metrics/system'') (json_endpoint metrics_system),
      api_route [''GET''] (PathTail ''/'' ''rest_of_path'') catch_all_endpoint,
      api_route [''GET''] (Static ''/'') catch_all_endpoint]"

text \<open>
  \<^verbatim>\<open>FastAPI(title=..., description=..., version=...)\<close> (lines 18-22) leaves the
  documentation URLs at their defaults, so the constructor registers the routes of the
  OpenAPI schema and of the documentation pages, for GET and HEAD, before any route of the
  file.
\<close>

definition page_endpoint :: "content \<Rightarrow> endpoint" where
  "page_endpoint c = (\<lambda>req ps. Inr \<lparr>status_code = 200, headers = [], body = c\<rparr>)"

definition documentation_routes :: "route list" where
  "documentation_routes =
     [api_route [''GET'', ''HEAD''] (Static ''/openapi.json'') (page_endpoint OpenAPISchema),
      api_route [''GET'', ''HEAD''] (Static ''/docs'') (page_endpoint SwaggerUIPage),
      api_route [''GET'', ''HEAD''] (Static ''/docs/oauth2-redirect'')
        (page_endpoint SwaggerUIRedirectPage),
      api_route [''GET'', ''HEAD''] (Static ''/redoc'') (page_endpoint ReDocPage)]"

definition routes :: "config \<Rightarrow> route list" where
  "routes cfg = documentation_routes @ declared_routes cfg"

section \<open>Middleware and exception handling\<close>

text \<open>
  The innermost layer turns an HTTP exception into its response; any other exception
  passes through.
\<close>

definition is_body_allowed_for_status_code :: "nat \<Rightarrow> bool" where
  "is_body_allowed_for_status_code sc = (\<not> (sc < 200 \<or> sc = 204 \<or> sc = 205 \<or> sc = 304))"

definition http_exception_handler :: "nat \<Rightarrow> string \<Rightarrow> header_list \<Rightarrow> response" where
  "http_exception_handler sc detail hs =
     (if is_body_allowed_for_status_code sc
      then JSONResponse sc hs (JObj [(''detail'', JStr detail)])
      else \<lparr>status_code = sc, headers = init_headers hs, body = Empty\<rparr>)"

definition exception_middleware :: "(request \<Rightarrow> exn + response) \<Rightarrow> request \<Rightarrow> exn + response" where
  "exception_middleware inner req =
     (case inner req of
        Inl (HTTPException sc detail hs) \<Rightarrow> Inr (http_exception_handler sc detail hs)
      | Inl (Exception text) \<Rightarrow> Inl (Exception text)
      | Inr resp \<Rightarrow> Inr resp)"

subsection \<open>The CORS middleware as configured at lines 25-32\<close>

text \<open>
  With \<^verbatim>\<open>allow_origins=["*"]\<close>, \<^verbatim>\<open>allow_credentials=True\<close>,
  \<^verbatim>\<open>allow_methods=["*"]\<close>, \<^verbatim>\<open>allow_headers=["*"]\<close> and the three exposed headers:
  a request without an \<^verbatim>\<open>Origin\<close> header passes unchanged; a preflight request
  (\<^verbatim>\<open>OPTIONS\<close> with \<^verbatim>\<open>Access-Control-Request-Method\<close>) is answered by the middleware;
  any other response gets the CORS headers.
\<close>

definition ALL_METHODS :: "string list" where
  "ALL_METHODS = [''DELETE'', ''GET'', ''HEAD'', ''OPTIONS'', ''PATCH'', ''POST'', ''PUT'']"

definition expose_headers :: "string list" where
  "expose_headers = [''X-Original-Location'', ''X-Redirect-Blocked'', ''X-Request-Path'']"

definition simple_headers :: header_list where
  "simple_headers =
     [(''Access-Control-Allow-Origin'', ''*''),
      (''Access-Control-Allow-Credentials'', ''true''),
      (''Access-Control-Expose-Headers'', join '', '' expose_headers)]"

definition preflight_headers :: header_list where
  "preflight_headers =
     [(''Vary'', ''Origin''),
      (''Access-Control-Allow-Methods'', join '', '' ALL_METHODS),
      (''Access-Control-Max-Age'', ''600''),
      (''Access-Control-Allow-Credentials'', ''true'')]"

definition is_preflight :: "request \<Rightarrow> bool" where
  "is_preflight req =
     (map_of (req_headers req) ''origin'' \<noteq> None \<and> req_method req = ''OPTIONS'' \<and>
      map_of (req_headers req) ''access-control-request-method'' \<noteq> None)"

definition preflight_response :: "string \<Rightarrow> string \<Rightarrow> string option \<Rightarrow> response" where
  "preflight_response requested_origin requested_method requested_headers =
     (let hs = preflight_headers @ [(''Access-Control-Allow-Origin'', requested_origin)];
          hs' = (case requested_headers of
                   None \<Rightarrow> hs
                 | Some rh \<Rightarrow> hs @ [(''Access-Control-Allow-Headers'', rh)])
      in if requested_method \<in> set ALL_METHODS
         then PlainTextResponse 200 hs' ''OK''
         else PlainTextResponse 400 hs' ''Disallowed CORS method'')"

definition allow_explicit_origin :: "string \<Rightarrow> header_list \<Rightarrow> header_list" where
  "allow_explicit_origin origin hs =
     add_vary_header ''Origin'' (set_header ''Access-Control-Allow-Origin'' origin hs)"

definition simple_response :: "string \<Rightarrow> bool \<Rightarrow> response \<Rightarrow> response" where
  "simple_response origin has_cookie resp =
     (let hs = update_headers simple_headers (headers resp)
      in resp\<lparr>headers := (if has_cookie then allow_explicit_origin origin hs else hs)\<rparr>)"

definition cors_middleware :: "(request \<Rightarrow> exn + response) \<Rightarrow> request \<Rightarrow> exn + response" where
  "cors_middleware inner req =
     (case map_of (req_headers req) ''origin'' of
        None \<Rightarrow> inner req
      | Some origin \<Rightarrow>
         (case (if req_method req = ''OPTIONS''
                then map_of (req_headers req) ''access-control-request-method'' else None) of
            Some requested_method \<Rightarrow>
              Inr (preflight_response origin requested_method
                     (map_of (req_headers req) ''access-control-request-headers''))
          | None \<Rightarrow>
             (case inner req of
                Inl e \<Rightarrow> Inl e
              | Inr resp \<Rightarrow>
                  Inr (simple_response origin (map_of (req_headers req) ''cookie'' \<noteq> None) resp))))"

subsection \<open>The middleware and the exception handler of the file (lines 80-97)\<close>

text \<open>
  \<open>anti_redirect_middleware\<close>: the headers are set on the response that
  \<^verbatim>\<open>call_next\<close> returns; an exception raised by \<^verbatim>\<open>call_next\<close> leaves the function.
\<close>

definition anti_redirect_middleware ::
    "(request \<Rightarrow> exn + response) \<Rightarrow> request \<Rightarrow> exn + response" where
  "anti_redirect_middleware call_next req =
     (case call_next req of
        Inl e \<Rightarrow> Inl e
      | Inr resp \<Rightarrow>
          Inr (resp\<lparr>headers :=
                 set_header ''X-Frame-Options'' ''DENY''
                 (set_header ''X-Content-Type-Options'' ''nosniff''
                 (set_header ''Expires'' ''0''
                 (set_header ''Pragma'' ''no-cache''
                 (set_header ''Cache-Control'' ''no-cache, no-store, must-revalidate''
                 (set_header ''X-No-Redirect'' ''1'' (headers resp))))))\<rparr>))"

definition global_exception_handler :: "request \<Rightarrow> exn \<Rightarrow> response" where
  "global_exception_handler req exc =
     JSONResponse 500 [] (JObj [(''message'', JStr (''Erro interno: '' @ str_exn exc))])"

text \<open>
  The stack of the application. Middleware added later wraps middleware added earlier, so
  \<open>anti_redirect_middleware\<close> is outside the CORS middleware. A handler registered for
  \<^verbatim>\<open>Exception\<close> runs in the outermost layer, around all middleware: it answers when
  an exception has left the whole stack.
\<close>

definition middleware_stack :: "route list \<Rightarrow> request \<Rightarrow> exn + response" where
  "middleware_stack rs =
     anti_redirect_middleware (cors_middleware (exception_middleware (router rs)))"

definition serve :: "route list \<Rightarrow> request \<Rightarrow> response" where
  "serve rs req =
     (case middleware_stack rs req of
        Inl exc \<Rightarrow> global_exception_handler req exc
      | Inr resp \<Rightarrow> resp)"

definition app :: "config \<Rightarrow> request \<Rightarrow> response" where
  "app cfg req = serve (routes cfg) req"

text \<open>A request served by a running process: the handlers read the module globals.\<close>

definition serve_process :: "process \<Rightarrow> request \<Rightarrow> response" where
  "serve_process p req = app (settings p) req"

section \<open>Vocabulary of the properties\<close>

text \<open>The eight literal paths of lines 35-77, and the four paths of the framework's own routes.\<close>

definition declared_paths :: "string list" where
  "declared_paths =
     [''/health'', ''/api/health'', ''/games'', ''/api/games'', ''/ml/game-detection'',
      ''/api/metrics/ping'', ''/api/metrics/jitter'', ''/api/metrics/system'']"

definition documentation_paths :: "string list" where
  "documentation_paths = [''/openapi.json'', ''/docs'', ''/docs/oauth2-redirect'', ''/redoc'']"

text \<open>Some route of a table matches the path, whatever the method.\<close>

definition matched :: "route list \<Rightarrow> string \<Rightarrow> bool" where
  "matched rs p = list_ex (\<lambda>r. pattern_match (pattern r) p \<noteq> None) rs"


text \<open>
  A request with the given method, path and headers, no query string and no body, over
  plain HTTP.
\<close>

definition make_request :: "string \<Rightarrow> string \<Rightarrow> header_list \<Rightarrow> request" where
  "make_request m p hs =
     \<lparr>req_method = m, req_path = p, query_string = [], req_headers = hs, req_body = [],
      scheme = Http, server = None\<rparr>"

text \<open>An endpoint that raises, for the error path, which no handler of the file takes.\<close>

definition failing_endpoint :: "string \<Rightarrow> endpoint" where
  "failing_endpoint text = (\<lambda>req ps. Inl (Exception text))"

text \<open>
  The routes of the application under the default configuration, with one more route
  registered ahead of them, whose handler raises.
\<close>

definition routes_with_failing_handler :: "route list" where
  "routes_with_failing_handler =
     api_route [''GET''] (Static ''/boom'') (failing_endpoint ''boom'') # routes (load_config Map.empty)"

section \<open>Auxiliary lemmas\<close>


lemmas route_defs = routes_def documentation_routes_def declared_routes_def api_route_def
  matches_def startswith_def json_endpoint_def page_endpoint_def catch_all_endpoint_def
  handle_def path_params_def






lemma router_cases:
  assumes "\<And>r rq ps. r \<in> set rs \<Longrightarrow> \<exists>hs c. endpoint r rq ps = Inr \<lparr>status_code = 200, headers = hs, body = c\<rparr>"
  shows "(\<exists>resp. router rs req = Inr resp \<and> (status_code resp = 200 \<or> status_code resp = 307)) \<or>
         (\<exists>hs. router rs req = Inl (HTTPException 405 ''Method Not Allowed'' hs)) \<or>
         router rs req = Inl (HTTPException 404 ''Not Found'' [])"
proof (cases "find (\<lambda>r. matches r (req_method req) (req_path req) = Full) rs")
  case (Some r)
  then have "r \<in> set rs" by (auto simp: find_Some_iff)
  from assms[OF this] Some show ?thesis
    apply (simp add: router_def handle_def)
    by (metis response.select_convs(1))
next
  case None
  note N = this
  show ?thesis
  proof (cases "find (\<lambda>r. matches r (req_method req) (req_path req) = Partial) rs")
    case (Some r)
    then have "r \<in> set rs" by (auto simp: find_Some_iff)
    from assms[OF this] Some N show ?thesis
      apply (simp add: router_def handle_def)
      by (metis response.select_convs(1))
  next
    case None
    with N show ?thesis by (simp add: router_def RedirectResponse_def)
  qed
qed

lemma routes_return_200:
  assumes "r \<in> set (routes cfg)"
  shows "\<exists>hs c. endpoint r rq ps = Inr \<lparr>status_code = 200, headers = hs, body = c\<rparr>"
  using assms by (auto simp: route_defs JSONResponse_def)

lemma exception_middleware_cases:
  "(\<exists>resp. exception_middleware (router (routes cfg)) req = Inr resp \<and>
      status_code resp \<in> {200, 307, 404, 405})"
proof -
  have "\<And>r rq ps. r \<in> set (routes cfg) \<Longrightarrow>
          \<exists>hs c. endpoint r rq ps = Inr \<lparr>status_code = 200, headers = hs, body = c\<rparr>"
    by (rule routes_return_200)
  from router_cases[of "routes cfg" req, OF this] show ?thesis
    by (auto simp: exception_middleware_def http_exception_handler_def
        is_body_allowed_for_status_code_def JSONResponse_def)
qed

lemma stack_not_preflight:
  assumes "\<not> is_preflight req" "exception_middleware (router rs) req = Inr r"
  shows "\<exists>resp. middleware_stack rs req = Inr resp \<and> status_code resp = status_code r \<and>
           body resp = body r"
  using assms
  by (auto simp: middleware_stack_def anti_redirect_middleware_def cors_middleware_def
      is_preflight_def simple_response_def Let_def split: option.splits)

lemma stack_exception:
  assumes "\<not> is_preflight req" "exception_middleware (router rs) req = Inl e"
  shows "middleware_stack rs req = Inl e"
  using assms
  by (auto simp: middleware_stack_def anti_redirect_middleware_def cors_middleware_def
      is_preflight_def split: option.splits)

lemma stack_preflight:
  assumes "is_preflight req"
  shows "\<exists>resp. middleware_stack rs req = Inr resp \<and> (status_code resp = 200 \<or> status_code resp = 400)"
  using assms
  by (auto simp: middleware_stack_def anti_redirect_middleware_def cors_middleware_def
      is_preflight_def preflight_response_def PlainTextResponse_def Let_def split: option.splits)

lemma stack_returns:
  "\<exists>resp. middleware_stack (routes cfg) req = Inr resp \<and> status_code resp \<in> {200, 307, 400, 404, 405}"
proof (cases "is_preflight req")
  case True
  from stack_preflight[OF this, of "routes cfg"] show ?thesis by auto
next
  case False
  from exception_middleware_cases[of cfg req] obtain r where
    r: "exception_middleware (router (routes cfg)) req = Inr r" "status_code r \<in> {200, 307, 404, 405}"
    by blast
  from stack_not_preflight[OF False r(1)] r(2) show ?thesis by auto
qed

lemma serve_not_preflight:
  assumes "\<not> is_preflight req" "router rs req = Inr r"
  shows "status_code (serve rs req) = status_code r \<and> body (serve rs req) = body r"
proof -
  from assms(2) have "exception_middleware (router rs) req = Inr r"
    by (simp add: exception_middleware_def)
  from stack_not_preflight[OF assms(1) this] show ?thesis
    by (auto simp: serve_def)
qed

lemma get_not_preflight: "req_method req = ''GET'' \<Longrightarrow> \<not> is_preflight req"
  by (simp add: is_preflight_def)


lemma router_get_other:
  assumes "req_method req = ''GET''"
    and "pattern_match (PathTail ''/'' ''rest_of_path'') (req_path req) \<noteq> None"
    and "\<forall>p\<in>set declared_paths. pattern_match (Static p) (req_path req) = None"
    and "\<forall>p\<in>set documentation_paths. pattern_match (Static p) (req_path req) = None"
  shows "\<exists>rest. router (routes cfg) req = Inr (JSONResponse 200 [] (catch_all rest))"
proof -
  from assms(3,4) have
    "find (\<lambda>r. matches r (req_method req) (req_path req) = Full) (routes cfg) =
       Some (api_route [''GET''] (PathTail ''/'' ''rest_of_path'') catch_all_endpoint)"
    using assms(1,2)
    by (simp add: routes_def documentation_routes_def declared_routes_def api_route_def
        matches_def declared_paths_def documentation_paths_def split: option.splits)
  then show ?thesis
    using assms(1)
    by (simp add: router_def handle_def api_route_def catch_all_endpoint_def catch_all_def)
qed

lemma router_get_docs:
  assumes "req_method req = ''GET''" "req_path req = ''/docs''"
  shows "router (routes cfg) req = Inr \<lparr>status_code = 200, headers = [], body = SwaggerUIPage\<rparr>"
  using assms by (simp add: router_def route_defs LF_def)

lemma split_from_nonempty: "split_from sep acc s \<noteq> []"
  by (induction s arbitrary: acc) auto


lemma partial_method: "matches r m p = Partial \<Longrightarrow> m \<notin> set (methods r)"
  by (auto simp: matches_def split: option.splits if_splits)

lemma router_405:
  assumes "\<forall>r\<in>set rs. matches r (req_method req) (req_path req) \<noteq> Full"
    and "\<exists>r\<in>set rs. matches r (req_method req) (req_path req) = Partial"
  shows "\<exists>hs. router rs req = Inl (HTTPException 405 ''Method Not Allowed'' hs)"
proof -
  from assms(1) have f: "find (\<lambda>r. matches r (req_method req) (req_path req) = Full) rs = None"
    by (simp add: find_None_iff)
  from assms(2) obtain r where
    p: "find (\<lambda>r. matches r (req_method req) (req_path req) = Partial) rs = Some r"
    by (cases "find (\<lambda>r. matches r (req_method req) (req_path req) = Partial) rs")
       (auto simp: find_None_iff)
  then have "matches r (req_method req) (req_path req) = Partial"
    by (auto simp: find_Some_iff)
  from partial_method[OF this] f p show ?thesis
    by (simp add: router_def handle_def)
qed

lemma full_method: "matches r m p = Full \<Longrightarrow> m \<in> set (methods r)"
  by (auto simp: matches_def split: option.splits if_splits)

lemma router_full:
  assumes "find (\<lambda>r. matches r (req_method req) (req_path req) = Full) rs = Some r"
  shows "router rs req = endpoint r req (path_params r (req_path req))"
proof -
  from assms have "matches r (req_method req) (req_path req) = Full"
    by (auto simp: find_Some_iff)
  from full_method[OF this] assms show ?thesis
    by (simp add: router_def handle_def)
qed

lemma declared_get_only: "r \<in> set (declared_routes cfg) \<Longrightarrow> methods r = [''GET'']"
  by (auto simp: declared_routes_def api_route_def)

lemma documentation_get_head: "r \<in> set documentation_routes \<Longrightarrow> methods r = [''GET'', ''HEAD'']"
  by (auto simp: documentation_routes_def api_route_def)

lemma endpoint_ignores_request:
  "r \<in> set (routes cfg) \<Longrightarrow> endpoint r req ps = endpoint r req' ps"
  by (auto simp: routes_def documentation_routes_def declared_routes_def api_route_def
      json_endpoint_def page_endpoint_def catch_all_endpoint_def)

lemma router_non_get:
  assumes "req_method req \<noteq> ''GET''"
    and "matched (declared_routes cfg) (req_path req)"
    and "\<not> (req_method req = ''HEAD'' \<and> matched documentation_routes (req_path req))"
  shows "\<exists>hs. router (routes cfg) req = Inl (HTTPException 405 ''Method Not Allowed'' hs)"
proof (rule router_405)
  show "\<forall>r\<in>set (routes cfg). matches r (req_method req) (req_path req) \<noteq> Full"
  proof
    fix r assume r: "r \<in> set (routes cfg)"
    show "matches r (req_method req) (req_path req) \<noteq> Full"
    proof (cases "r \<in> set documentation_routes")
      case True
      with assms(1,3) documentation_get_head[OF True] show ?thesis
        by (auto simp: matches_def matched_def list_ex_iff split: option.splits)
    next
      case False
      with r have "r \<in> set (declared_routes cfg)" by (simp add: routes_def)
      from declared_get_only[OF this] assms(1) show ?thesis
        by (auto simp: matches_def split: option.splits)
    qed
  qed
  from assms(2) obtain r where r: "r \<in> set (declared_routes cfg)"
    "pattern_match (pattern r) (req_path req) \<noteq> None"
    by (auto simp: matched_def list_ex_iff)
  with declared_get_only[OF r(1)] assms(1)
  have "matches r (req_method req) (req_path req) = Partial"
    by (auto simp: matches_def)
  with r(1) show "\<exists>r\<in>set (routes cfg). matches r (req_method req) (req_path req) = Partial"
    by (auto simp: routes_def)
qed

lemma routes_secrets: "routes (cfg\<lparr>JWT_SECRET := s, API_KEYS := ks\<rparr>) = routes cfg"
  by (simp add: routes_def declared_routes_def health_def api_health_def)

lemma router_get_path_only:
  assumes "req_method req = ''GET''" "req_method req' = ''GET''" "req_path req' = req_path req"
    and "matched (declared_routes cfg) (req_path req)"
  shows "router (routes cfg) req' = router (routes cfg) req"
proof -
  from assms(4) obtain r where r: "r \<in> set (declared_routes cfg)"
    "pattern_match (pattern r) (req_path req) \<noteq> None"
    by (auto simp: matched_def list_ex_iff)
  with declared_get_only[OF r(1)] assms(1)
  have "matches r (req_method req) (req_path req) = Full"
    by (auto simp: matches_def)
  with r(1) have "find (\<lambda>r. matches r (req_method req) (req_path req) = Full) (routes cfg) \<noteq> None"
    by (auto simp: find_None_iff routes_def)
  then obtain r' where
    f: "find (\<lambda>r. matches r (req_method req) (req_path req) = Full) (routes cfg) = Some r'"
    by blast
  then have m: "r' \<in> set (routes cfg)" by (auto simp: find_Some_iff)
  from f assms(1,2,3) have
    f': "find (\<lambda>r. matches r (req_method req') (req_path req') = Full) (routes cfg) = Some r'"
    by simp
  from router_full[OF f] router_full[OF f'] endpoint_ignores_request[OF m] assms(3)
  show ?thesis by simp
qed

section \<open>Properties\<close>



text \<open>
  C2, amended. A GET request whose path is matched by the wildcard route (the path begins
  with a slash and holds no line feed, but possibly as its last character), by none of
  the eight literal routes of the file and by none of the four documentation routes of
  the framework is answered with status 200, not 404, and the fallback message; the
  handler's result is the same for every value of its path parameter.
\<close>

theorem catch_all_fallback:
  assumes "req_method req = ''GET''"
    and "pattern_match (PathTail ''/'' ''rest_of_path'') (req_path req) \<noteq> None"
    and "\<forall>p\<in>set declared_paths. pattern_match (Static p) (req_path req) = None"
    and "\<forall>p\<in>set documentation_paths. pattern_match (Static p) (req_path req) = None"
  shows "status_code (app cfg req) = 200 \<and>
         body (app cfg req) = JSON (JObj [(''message'', JStr ''Esta rota deve ser servida pelo frontend'')]) \<and>
         catch_all rest_of_path = catch_all rest_of_path'"
proof -
  from router_get_other[OF assms, of cfg] obtain rest where
    "router (routes cfg) req = Inr (JSONResponse 200 [] (catch_all rest))" by blast
  from serve_not_preflight[OF get_not_preflight[OF assms(1)] this] show ?thesis
    by (simp add: app_def JSONResponse_def catch_all_def)
qed

theorem catch_all_fallback_witness:
  "status_code (app (load_config Map.empty) (make_request ''GET'' ''/unknown/page'' [])) = 200 \<and>
   body (app (load_config Map.empty) (make_request ''GET'' ''/unknown/page'' [])) =
     JSON (JObj [(''message'', JStr ''Esta rota deve ser servida pelo frontend'')])"
  using catch_all_fallback[of "make_request ''GET'' ''/unknown/page'' []" "load_config Map.empty"]
  by (simp add: make_request_def startswith_def endswith_def LF_def Let_def declared_paths_def
      documentation_paths_def)

theorem catch_all_fallback_counterexample:
  "req_method (make_request ''GET'' ''/docs'' []) = ''GET'' \<and>
   req_path (make_request ''GET'' ''/docs'' []) \<notin> set declared_paths \<and>
   status_code (app (load_config Map.empty) (make_request ''GET'' ''/docs'' [])) = 200 \<and>
   body (app (load_config Map.empty) (make_request ''GET'' ''/docs'' [])) = SwaggerUIPage \<and>
   body (app (load_config Map.empty) (make_request ''GET'' ''/docs'' [])) \<noteq>
     JSON (JObj [(''message'', JStr ''Esta rota deve ser servida pelo frontend'')]) \<and>
   \<not> matched (routes (load_config Map.empty)) (''/a'' @ [LF] @ ''b'') \<and>
   status_code (app (load_config Map.empty) (make_request ''GET'' (''/a'' @ [LF] @ ''b'') [])) = 404 \<and>
   body (app (load_config Map.empty) (make_request ''GET'' (''/a'' @ [LF] @ ''b'') [])) =
     JSON (JObj [(''detail'', JStr ''Not Found'')])"
  by code_simp



text \<open>
  C4. When the handling of a request raises an exception that nothing handles, the
  response has status 500 and the JSON body whose message is \<^verbatim>\<open>Erro interno: \<close>
  followed by the description of the exception.
\<close>

theorem unhandled_exception_response:
  assumes "router rs req = Inl (Exception text)" "\<not> is_preflight req"
  shows "status_code (serve rs req) = 500 \<and>
         body (serve rs req) = JSON (JObj [(''message'', JStr (''Erro interno: '' @ text))])"
proof -
  from assms(1) have "exception_middleware (router rs) req = Inl (Exception text)"
    by (simp add: exception_middleware_def)
  from stack_exception[OF assms(2) this] show ?thesis
    by (simp add: serve_def global_exception_handler_def JSONResponse_def)
qed

theorem unhandled_exception_response_witness:
  "router routes_with_failing_handler (make_request ''GET'' ''/boom'' []) = Inl (Exception ''boom'') \<and>
   status_code (serve routes_with_failing_handler (make_request ''GET'' ''/boom'' [])) = 500 \<and>
   body (serve routes_with_failing_handler (make_request ''GET'' ''/boom'' [])) =
     JSON (JObj [(''message'', JStr ''Erro interno: boom'')])"
proof -
  have r: "router routes_with_failing_handler (make_request ''GET'' ''/boom'' []) =
             Inl (Exception ''boom'')"
    by (simp add: router_def matches_def handle_def path_params_def api_route_def
        failing_endpoint_def make_request_def routes_with_failing_handler_def)
  have p: "\<not> is_preflight (make_request ''GET'' ''/boom'' [])"
    by (simp add: is_preflight_def make_request_def)
  from unhandled_exception_response[OF r p] r show ?thesis by simp
qed



text \<open>
  C6, amended. Two GET requests to the same path, one that a declared route matches, get
  the same status and the same body, whatever their query strings, headers and bodies;
  the whole responses are equal when the requests also agree on the \<^verbatim>\<open>Origin\<close>
  header and on the presence of a \<^verbatim>\<open>Cookie\<close> header, which the CORS middleware of
  lines 25-32 reads to set its response headers.
\<close>

theorem responses_ignore_request_content:
  assumes "req_method req = ''GET''" "req_method req' = ''GET''" "req_path req' = req_path req"
    and "matched (declared_routes cfg) (req_path req)"
  shows "status_code (app cfg req') = status_code (app cfg req) \<and>
         body (app cfg req') = body (app cfg req) \<and>
         (map_of (req_headers req') ''origin'' = map_of (req_headers req) ''origin'' \<and>
          (map_of (req_headers req') ''cookie'' = None) = (map_of (req_headers req) ''cookie'' = None) \<longrightarrow>
            app cfg req' = app cfg req)"
proof -
  note r = router_get_path_only[OF assms, of]
  from exception_middleware_cases[of cfg req] obtain resp where
    e: "exception_middleware (router (routes cfg)) req = Inr resp" by blast
  with r have e': "exception_middleware (router (routes cfg)) req' = Inr resp"
    by (simp add: exception_middleware_def)
  from stack_not_preflight[OF get_not_preflight[OF assms(1)] e]
    stack_not_preflight[OF get_not_preflight[OF assms(2)] e']
  have sb: "status_code (app cfg req') = status_code (app cfg req) \<and>
         body (app cfg req') = body (app cfg req)"
    by (auto simp: app_def serve_def)
  have w: "app cfg req' = app cfg req"
    if "map_of (req_headers req') ''origin'' = map_of (req_headers req) ''origin''"
       "(map_of (req_headers req') ''cookie'' = None) = (map_of (req_headers req) ''cookie'' = None)"
    using that e e' assms(1,2)
    by (simp add: app_def serve_def middleware_stack_def anti_redirect_middleware_def
        cors_middleware_def split: option.splits)
  from sb w show ?thesis by simp
qed

theorem responses_ignore_request_content_witness:
  "app (load_config Map.empty)
     \<lparr>req_method = ''GET'', req_path = ''/games'', query_string = ''id=csgo'',
      req_headers = [(''authorization'', ''Bearer abc''), (''accept'', ''text/html'')],
      req_body = ''{}'', scheme = Https, server = Some (''10.0.0.1'', 8000)\<rparr> =
   app (load_config Map.empty) (make_request ''GET'' ''/games'' [])"
  using responses_ignore_request_content[where cfg = "load_config Map.empty"
      and req = "make_request ''GET'' ''/games'' []"
      and req' = "\<lparr>req_method = ''GET'', req_path = ''/games'', query_string = ''id=csgo'',
      req_headers = [(''authorization'', ''Bearer abc''), (''accept'', ''text/html'')],
      req_body = ''{}'', scheme = Https, server = Some (''10.0.0.1'', 8000)\<rparr>"]
  by (simp add: make_request_def matched_def declared_routes_def api_route_def LF_def)

theorem responses_ignore_request_content_counterexample:
  "req_method (make_request ''GET'' ''/health'' [(''origin'', ''https://example.com'')]) =
     req_method (make_request ''GET'' ''/health'' []) \<and>
   req_path (make_request ''GET'' ''/health'' [(''origin'', ''https://example.com'')]) =
     req_path (make_request ''GET'' ''/health'' []) \<and>
   get_header ''Access-Control-Allow-Origin''
     (headers (app (load_config Map.empty) (make_request ''GET'' ''/health'' [(''origin'', ''https://example.com'')]))) = Some ''*'' \<and>
   get_header ''Access-Control-Allow-Origin''
     (headers (app (load_config Map.empty) (make_request ''GET'' ''/health'' []))) = None \<and>
   app (load_config Map.empty) (make_request ''GET'' ''/health'' [(''origin'', ''https://example.com'')]) \<noteq>
   app (load_config Map.empty) (make_request ''GET'' ''/health'' [])"
proof -
  have a: "get_header ''Access-Control-Allow-Origin''
     (headers (app (load_config Map.empty) (make_request ''GET'' ''/health'' [(''origin'', ''https://example.com'')]))) = Some ''*''"
    by code_simp
  have b: "get_header ''Access-Control-Allow-Origin''
     (headers (app (load_config Map.empty) (make_request ''GET'' ''/health'' []))) = None"
    by code_simp
  from a b have "app (load_config Map.empty) (make_request ''GET'' ''/health'' [(''origin'', ''https://example.com'')]) \<noteq>
   app (load_config Map.empty) (make_request ''GET'' ''/health'' [])"
    by auto
  with a b show ?thesis by (simp add: make_request_def)
qed

text \<open>
  C7. The secret and the API keys influence no response: configurations that differ in
  them only, and startups whose environments differ in these two variables only, answer
  every request alike; and no request is answered 401 or 403.
\<close>

theorem secrets_never_influence:
  "app (cfg\<lparr>JWT_SECRET := secret, API_KEYS := keys\<rparr>) req = app cfg req \<and>
   serve_process (startup dotenv (env(''JWT_SECRET'' := secret', ''API_KEYS'' := keys'))) req =
     serve_process (startup dotenv env) req \<and>
   status_code (app cfg req) \<noteq> 401 \<and> status_code (app cfg req) \<noteq> 403"
proof -
  have 1: "app (cfg\<lparr>JWT_SECRET := secret, API_KEYS := keys\<rparr>) req = app cfg req"
    by (simp add: app_def routes_secrets)
  have e: "getenv (load_dotenv dotenv (env(''JWT_SECRET'' := secret', ''API_KEYS'' := keys'))) ''ENVIRONMENT'' d =
           getenv (load_dotenv dotenv env) ''ENVIRONMENT'' d" for d
    by (simp add: getenv_def load_dotenv_def map_add_def)
  have 2: "routes (load_config (load_dotenv dotenv (env(''JWT_SECRET'' := secret', ''API_KEYS'' := keys')))) =
           routes (load_config (load_dotenv dotenv env))"
    by (simp add: routes_def declared_routes_def health_def api_health_def load_config_def e)
  have 3: "serve_process (startup dotenv (env(''JWT_SECRET'' := secret', ''API_KEYS'' := keys'))) req =
     serve_process (startup dotenv env) req"
    by (simp add: serve_process_def startup_def Let_def app_def 2)
  from stack_returns[of cfg req] have 4: "status_code (app cfg req) \<in> {200, 307, 400, 404, 405}"
    by (auto simp: app_def serve_def)
  from 1 3 4 show ?thesis by auto
qed

theorem secrets_never_influence_witness:
  "app (load_config [''JWT_SECRET'' \<mapsto> ''s1'', ''API_KEYS'' \<mapsto> ''k1,k2'']) (make_request ''GET'' ''/api/games'' []) =
   app (load_config Map.empty) (make_request ''GET'' ''/api/games'' [])"
  using secrets_never_influence[where cfg = "load_config Map.empty" and secret = "''s1''"
      and keys = "[''k1'', ''k2'']" and req = "make_request ''GET'' ''/api/games'' []"]
  by (simp add: load_config_def getenv_def str_split_def)

text \<open>
  C8, amended. Every route declared in the file is registered for GET only, and a request
  with another method to a path that a declared route matches is answered 405 with the
  detail \<^verbatim>\<open>Method Not Allowed\<close>, not by the fallback, unless it is a CORS preflight
  request (\<^verbatim>\<open>OPTIONS\<close> with the headers \<^verbatim>\<open>Origin\<close> and
  \<^verbatim>\<open>Access-Control-Request-Method\<close>), which the CORS middleware answers itself, or
  a HEAD request to a path that a documentation route of the framework matches.
\<close>

theorem non_get_method_not_allowed:
  assumes "req_method req \<noteq> ''GET''" "matched (declared_routes cfg) (req_path req)"
    "\<not> is_preflight req"
    "\<not> (req_method req = ''HEAD'' \<and> matched documentation_routes (req_path req))"
  shows "(\<forall>r\<in>set (declared_routes cfg). methods r = [''GET'']) \<and>
         status_code (app cfg req) = 405 \<and>
         body (app cfg req) = JSON (JObj [(''detail'', JStr ''Method Not Allowed'')])"
proof -
  from router_non_get[OF assms(1,2,4)] obtain hs where
    "router (routes cfg) req = Inl (HTTPException 405 ''Method Not Allowed'' hs)" by blast
  then have "exception_middleware (router (routes cfg)) req =
      Inr (JSONResponse 405 hs (JObj [(''detail'', JStr ''Method Not Allowed'')]))"
    by (simp add: exception_middleware_def http_exception_handler_def
        is_body_allowed_for_status_code_def)
  from stack_not_preflight[OF assms(3) this]
  have "status_code (app cfg req) = 405 \<and>
         body (app cfg req) = JSON (JObj [(''detail'', JStr ''Method Not Allowed'')])"
    by (auto simp: app_def serve_def JSONResponse_def)
  moreover have "\<forall>r\<in>set (declared_routes cfg). methods r = [''GET'']"
    by (simp add: declared_routes_def api_route_def)
  ultimately show ?thesis by blast
qed

theorem non_get_method_not_allowed_witness:
  "status_code (app (load_config Map.empty) (make_request ''POST'' ''/api/games'' [])) = 405 \<and>
   body (app (load_config Map.empty) (make_request ''POST'' ''/api/games'' [])) =
     JSON (JObj [(''detail'', JStr ''Method Not Allowed'')]) \<and>
   status_code (app (load_config Map.empty) (make_request ''DELETE'' ''/anything/else'' [])) = 405"
proof -
  have m: "matched (declared_routes (load_config Map.empty)) ''/api/games''"
    "matched (declared_routes (load_config Map.empty)) ''/anything/else''"
    "\<not> matched documentation_routes ''/api/games''"
    "\<not> matched documentation_routes ''/anything/else''"
    by code_simp+
  from m non_get_method_not_allowed[where cfg = "load_config Map.empty"
      and req = "make_request ''POST'' ''/api/games'' []"]
    non_get_method_not_allowed[where cfg = "load_config Map.empty"
      and req = "make_request ''DELETE'' ''/anything/else'' []"]
  show ?thesis
    by (simp add: make_request_def is_preflight_def)
qed

theorem non_get_method_not_allowed_counterexample:
  "req_method (make_request ''OPTIONS'' ''/health''
      [(''origin'', ''https://example.com''), (''access-control-request-method'', ''POST'')]) \<noteq> ''GET'' \<and>
   status_code (app (load_config Map.empty) (make_request ''OPTIONS'' ''/health''
      [(''origin'', ''https://example.com''), (''access-control-request-method'', ''POST'')])) = 200 \<and>
   body (app (load_config Map.empty) (make_request ''OPTIONS'' ''/health''
      [(''origin'', ''https://example.com''), (''access-control-request-method'', ''POST'')])) = PlainText ''OK'' \<and>
   req_method (make_request ''HEAD'' ''/docs'' []) \<noteq> ''GET'' \<and>
   status_code (app (load_config Map.empty) (make_request ''HEAD'' ''/docs'' [])) = 200 \<and>
   \<not> matched (routes (load_config Map.empty)) (''/a'' @ [LF] @ ''b'') \<and>
   status_code (app (load_config Map.empty) (make_request ''POST'' (''/a'' @ [LF] @ ''b'') [])) = 404 \<and>
   body (app (load_config Map.empty) (make_request ''POST'' (''/a'' @ [LF] @ ''b'') [])) =
     JSON (JObj [(''detail'', JStr ''Not Found'')])"
  by code_simp

text \<open>
  C9. The list of API keys read at startup is never empty: it is the single default key
  when the variable is unset, and the single empty string when the variable is empty.
\<close>

theorem api_keys_nonempty:
  "API_KEYS (load_config env) \<noteq> [] \<and>
   (env ''API_KEYS'' = None \<longrightarrow> API_KEYS (load_config env) = [''dev-api-key'']) \<and>
   (env ''API_KEYS'' = Some [] \<longrightarrow> API_KEYS (load_config env) = [[]]) \<and>
   API_KEYS (settings (startup dotenv env)) \<noteq> []"
  by (simp add: load_config_def startup_def Let_def getenv_def str_split_def split_from_nonempty)

theorem api_keys_nonempty_witness:
  "API_KEYS (load_config Map.empty) = [''dev-api-key''] \<and>
   API_KEYS (load_config [''API_KEYS'' \<mapsto> []]) = [[]]"
  using api_keys_nonempty[of Map.empty] api_keys_nonempty[of "[''API_KEYS'' \<mapsto> []]"]
  by simp



end
